theory Spec2Isabelle
  imports Main "HOL-Library.Multiset"
begin

section \<open>Data model of the chat page (ChatbotPage.tsx)\<close>

text \<open>
  JavaScript strings are modelled as \<open>string\<close> (a list of code units); \<open>slice(0, 50)\<close> is
  \<open>take 50\<close>. Field names carry the name of their interface as a prefix, because a record
  field is a constant and \<open>id\<close> is taken.
\<close>

datatype role = User | Assistant

text \<open>\<^verbatim>\<open>interface Message { id; role; content; timestamp }\<close>\<close>

record message =
  msg_id :: string
  msg_role :: role
  msg_content :: string
  msg_timestamp :: string

text \<open>\<^verbatim>\<open>interface Conversation { id; title; messages; created_at; sessionId }\<close>\<close>

record conversation =
  conv_id :: string
  conv_title :: string
  conv_messages :: "message list"
  conv_created_at :: string
  conv_sessionId :: string

text \<open>
  One element of \<open>history.conversations\<close>, as \<open>GET /api/chat/history/{id}\<close> returns it: the
  fields \<open>id\<close>, \<open>message\<close>, \<open>response\<close>, \<open>timestamp\<close> of a row of the table \<open>conversations\<close>.
\<close>

record turn =
  turn_id :: string
  turn_message :: string
  turn_response :: string
  turn_timestamp :: string

text \<open>One element of the answer of \<open>GET /api/chat/sessions\<close>; the page reads \<open>id\<close> and \<open>created_at\<close>.\<close>

record session_info =
  session_id :: string
  session_created_at :: string

section \<open>History reconstruction and title derivation (loadSessionsAndConversations)\<close>

text \<open>The body of the \<open>forEach\<close>: two \<open>messages.push\<close> calls for one turn.\<close>

definition pushTurn :: "message list \<Rightarrow> turn \<Rightarrow> message list" where
  "pushTurn messages conv =
     (messages @
        [\<lparr>msg_id = turn_id conv @ ''-user'', msg_role = User,
          msg_content = turn_message conv, msg_timestamp = turn_timestamp conv\<rparr>]) @
        [\<lparr>msg_id = turn_id conv @ ''-assistant'', msg_role = Assistant,
          msg_content = turn_response conv, msg_timestamp = turn_timestamp conv\<rparr>]"

text \<open>JavaScript \<open>a || b\<close> on strings: the empty string is the only falsy string.\<close>

definition js_or :: "string \<Rightarrow> string \<Rightarrow> string" where
  "js_or a b = (if a = [] then b else a)"

text \<open>
  The two locals \<open>messages\<close> and \<open>title\<close> of the loop body, from the turns of one session.
  \<open>messages\<close> starts as a fresh empty array for every session.
\<close>

definition historyMessages :: "turn list \<Rightarrow> message list" where
  "historyMessages conversations =
     (if length conversations > 0 then foldl pushTurn [] conversations else [])"

definition historyTitle :: "turn list \<Rightarrow> string" where
  "historyTitle conversations =
     (case conversations of
        [] \<Rightarrow> ''New Chat''
      | conv0 # _ \<Rightarrow> js_or (take 50 (turn_message conv0) @ ''...'') ''New Chat'')"

text \<open>
  One iteration of \<open>for (const session of sessionsData)\<close>. The history is \<open>None\<close> when the
  inner \<open>try\<close> throws (the fetch rejects, the body is not JSON, or the body has no
  \<open>conversations\<close> array): the \<open>catch\<close> pushes an empty conversation.
\<close>

definition conversationOf :: "session_info \<Rightarrow> turn list option \<Rightarrow> conversation" where
  "conversationOf session history =
     (case history of
        Some conversations \<Rightarrow>
          \<lparr>conv_id = session_id session,
           conv_title = historyTitle conversations,
           conv_messages = historyMessages conversations,
           conv_created_at = session_created_at session,
           conv_sessionId = session_id session\<rparr>
      | None \<Rightarrow>
          \<lparr>conv_id = session_id session,
           conv_title = ''New Chat'',
           conv_messages = [],
           conv_created_at = session_created_at session,
           conv_sessionId = session_id session\<rparr>)"

section \<open>Ordering of the conversation list\<close>

text \<open>
  The comparator of \<open>conversationsData.sort\<close>. \<open>getTime\<close> stands for
  \<open>new Date(s).getTime()\<close>, a number of milliseconds, with \<open>None\<close> for the \<open>NaN\<close> of an
  invalid date; the comparator's own result is \<open>None\<close> when the difference is \<open>NaN\<close>.
\<close>

definition compareConversations ::
  "(string \<Rightarrow> int option) \<Rightarrow> conversation \<Rightarrow> conversation \<Rightarrow> int option" where
  "compareConversations getTime a b =
     (if length (conv_messages a) > 0 \<and> length (conv_messages b) = 0 then Some (- 1)
      else if length (conv_messages a) = 0 \<and> length (conv_messages b) > 0 then Some 1
      else (case getTime (conv_created_at b) of
              None \<Rightarrow> None
            | Some tb \<Rightarrow> (case getTime (conv_created_at a) of
                           None \<Rightarrow> None
                         | Some ta \<Rightarrow> Some (tb - ta))))"

text \<open>
  \<open>Array.prototype.sort\<close> with a comparator: the language reads a \<open>NaN\<close> result as \<open>+0\<close>, and
  the sort is stable. For a consistent comparator the result is the stable sorted
  permutation, which a stable insertion sort computes.
\<close>

definition sortCompare :: "('a \<Rightarrow> 'a \<Rightarrow> int option) \<Rightarrow> 'a \<Rightarrow> 'a \<Rightarrow> int" where
  "sortCompare comparefn x y = (case comparefn x y of None \<Rightarrow> 0 | Some v \<Rightarrow> v)"

fun insertSorted :: "('a \<Rightarrow> 'a \<Rightarrow> int option) \<Rightarrow> 'a \<Rightarrow> 'a list \<Rightarrow> 'a list" where
  "insertSorted comparefn x [] = [x]"
| "insertSorted comparefn x (y # ys) =
     (if sortCompare comparefn x y \<le> 0 then x # y # ys
      else y # insertSorted comparefn x ys)"

definition arraySort :: "('a \<Rightarrow> 'a \<Rightarrow> int option) \<Rightarrow> 'a list \<Rightarrow> 'a list" where
  "arraySort comparefn xs = foldr (insertSorted comparefn) xs []"

definition sortConversations ::
  "(string \<Rightarrow> int option) \<Rightarrow> conversation list \<Rightarrow> conversation list" where
  "sortConversations getTime conversationsData =
     arraySort (compareConversations getTime) conversationsData"

section \<open>The page state and its environment\<close>

text \<open>
  An HTTP request as the page issues it: method, URL, the \<open>Authorization\<close> header when there
  is one, and the fields of the JSON body.
\<close>

record request =
  req_method :: string
  req_url :: string
  req_authorization :: "string option"
  req_body :: "(string \<times> string) list"

text \<open>\<^verbatim>\<open>...(token && { 'Authorization': `Bearer ${token}` })\<close>: no header for a missing or empty token.\<close>

definition authorization :: "string option \<Rightarrow> string option" where
  "authorization token =
     (case token of
        None \<Rightarrow> None
      | Some t \<Rightarrow> (if t = [] then None else Some (''Bearer '' @ t)))"

text \<open>
  What a thrown value looks like to the \<open>catch\<close> of \<open>sendMessage\<close>: an error whose \<open>name\<close> is
  \<open>AbortError\<close>, the object \<open>{status, message}\<close> thrown for a response that is not OK, or
  anything else (a network \<open>TypeError\<close>, a JSON \<open>SyntaxError\<close>).
\<close>

datatype thrown = AbortError | HttpError nat | OtherError

text \<open>
  How an awaited \<open>fetch\<close> ends: it rejects, or it resolves with a status and a body; the
  body is \<open>None\<close> when \<open>json()\<close> throws on it.
\<close>

datatype 'a fetched = Rejected thrown | Response nat "'a option"

text \<open>\<open>response.ok\<close>: the status is in the range 200 to 299.\<close>

definition responseOk :: "nat \<Rightarrow> bool" where
  "responseOk status = (200 \<le> status \<and> status \<le> 299)"

text \<open>The callbacks handed to \<open>setTimeout\<close> that are left pending when a handler returns.\<close>

datatype timer_action = FocusInput | PurgeTokenAndReload

text \<open>The user of the authentication context; the page reads \<open>id\<close> and \<open>username\<close>.\<close>

record auth_user =
  user_id :: string
  username :: string

text \<open>
  The React state of \<open>ChatbotPage\<close> that the handlers below read or write, and the browser
  state they touch: the \<open>token\<close> entry of \<open>localStorage\<close>, the number of
  \<open>window.location.reload()\<close> calls, the HTTP requests issued so far, and the pending timers
  with their delay in milliseconds.
\<close>

record page =
  conversations :: "conversation list"
  sessions :: "session_info list"
  currentConversation :: "conversation option"
  currentSession :: "session_info option"
  messages :: "message list"
  inputMessage :: string
  loading :: bool
  token :: "string option"
  reloads :: nat
  requests :: "request list"
  timers :: "(nat \<times> timer_action) list"

text \<open>One reading of the clock: \<open>Date.now()\<close> and \<open>new Date().toISOString()\<close>.\<close>

record clock =
  now :: int
  iso :: string

text \<open>\<open>Number.prototype.toString\<close> on an integer: its decimal digits.\<close>

definition digitChar :: "nat \<Rightarrow> char" where
  "digitChar d = char_of (48 + d)"

fun natToString :: "nat \<Rightarrow> string" where
  "natToString n =
     (if n < 10 then [digitChar n] else natToString (n div 10) @ [digitChar (n mod 10)])"

declare natToString.simps [simp del]

definition toString :: "int \<Rightarrow> string" where
  "toString i = (if i < 0 then CHR ''-'' # natToString (nat (- i)) else natToString (nat i))"

text \<open>
  \<open>String.prototype.trim\<close> strips white space and line terminators from both ends; of the
  code units below 256 these are TAB, LF, VT, FF, CR, SPACE and NBSP.
\<close>

definition isWhiteSpace :: "char \<Rightarrow> bool" where
  "isWhiteSpace c =
     (c \<in> set [CHR 0x09, CHR 0x0A, CHR 0x0B, CHR 0x0C, CHR 0x0D, CHR 0x20, CHR 0xA0])"

definition trim :: "string \<Rightarrow> string" where
  "trim s = rev (dropWhile isWhiteSpace (rev (dropWhile isWhiteSpace s)))"

section \<open>Loading, selecting and deleting conversations\<close>

definition getRequest :: "string option \<Rightarrow> string \<Rightarrow> request" where
  "getRequest tok url =
     \<lparr>req_method = ''GET'', req_url = url, req_authorization = authorization tok, req_body = []\<rparr>"

definition setTimeout :: "timer_action \<Rightarrow> nat \<Rightarrow> page \<Rightarrow> page" where
  "setTimeout f delay st = st\<lparr>timers := timers st @ [(delay, f)]\<rparr>"

text \<open>
  \<open>selectConversation\<close>. Its \<open>sessions\<close> is the state variable as the enclosing render
  captured it, so the caller passes that list.
\<close>

definition selectConversation :: "session_info list \<Rightarrow> conversation \<Rightarrow> page \<Rightarrow> page" where
  "selectConversation sessions0 conversation st =
     setTimeout FocusInput 100
       (st\<lparr>currentConversation := Some conversation,
           currentSession := find (\<lambda>s. session_id s = conv_sessionId conversation) sessions0,
           messages := conv_messages conversation\<rparr>)"

text \<open>
  The history of one session as the loop body sees it. The status of the answer is not
  looked at; every way the inner \<open>try\<close> can throw gives \<open>None\<close>. The body of the answer is
  its \<open>conversations\<close> field, \<open>None\<close> when the field is missing.
\<close>

definition historyOf :: "turn list option fetched \<Rightarrow> turn list option" where
  "historyOf r =
     (case r of
        Rejected e \<Rightarrow> None
      | Response status body \<Rightarrow> (case body of None \<Rightarrow> None | Some h \<Rightarrow> h))"

text \<open>The auto-selection at the end of \<open>loadSessionsAndConversations\<close>.\<close>

definition autoSelect :: "page \<Rightarrow> conversation list \<Rightarrow> page \<Rightarrow> page" where
  "autoSelect st0 conversationsData st =
     (if currentSession st0 = None \<and> length conversationsData > 0 then
        (case find (\<lambda>conv. length (conv_messages conv) > 0) conversationsData of
           Some firstConversationWithMessages \<Rightarrow>
             selectConversation (sessions st0) firstConversationWithMessages st
         | None \<Rightarrow>
             (case conversationsData of
                [] \<Rightarrow> st
              | c0 # _ \<Rightarrow> selectConversation (sessions st0) c0 st))
      else st)"

text \<open>
  \<open>loadSessionsAndConversations\<close>, from the state \<open>st\<close> of the render that called it, the
  answer to \<open>GET /api/chat/sessions\<close> and the answers to \<open>GET /api/chat/history/{id}\<close>,
  one per session id. An answer that is not OK and not 401, a rejected fetch and a body
  that is not JSON all end in the outer \<open>catch\<close>, which only logs.
\<close>

definition loadSessionsAndConversations ::
  "(string \<Rightarrow> int option) \<Rightarrow> session_info list fetched \<Rightarrow>
   (string \<Rightarrow> turn list option fetched) \<Rightarrow> page \<Rightarrow> page" where
  "loadSessionsAndConversations getTime sessionsResponse historyResponse st =
     (let tok = token st;
          st1 = st\<lparr>requests := requests st @ [getRequest tok ''/api/chat/sessions'']\<rparr>
      in case sessionsResponse of
           Rejected e \<Rightarrow> st1
         | Response status body \<Rightarrow>
             if \<not> responseOk status then
               (if status = 401 then st1\<lparr>token := None, reloads := reloads st1 + 1\<rparr> else st1)
             else
               (case body of
                  None \<Rightarrow> st1
                | Some sessionsData \<Rightarrow>
                    (let st2 = st1\<lparr>sessions := sessionsData,
                                   requests := requests st1 @
                                     map (\<lambda>session. getRequest tok
                                            (''/api/chat/history/'' @ session_id session))
                                         sessionsData\<rparr>;
                         conversationsData =
                           sortConversations getTime
                             (map (\<lambda>session. conversationOf session
                                     (historyOf (historyResponse (session_id session))))
                                  sessionsData);
                         st3 = st2\<lparr>conversations := conversationsData\<rparr>
                     in autoSelect st conversationsData st3)))"

text \<open>
  \<open>deleteConversation\<close>: the answer to the \<open>DELETE\<close> is awaited and never inspected, so
  every answer, whatever its status, removes the conversation from the list; only a
  rejected fetch leaves the state as it was.
\<close>

definition deleteConversation :: "string \<Rightarrow> unit fetched \<Rightarrow> page \<Rightarrow> page" where
  "deleteConversation conversationId r st =
     (let st1 = st\<lparr>requests := requests st @
                     [\<lparr>req_method = ''DELETE'',
                       req_url = ''/api/chat/session/'' @ conversationId,
                       req_authorization = authorization (token st),
                       req_body = []\<rparr>]\<rparr>
      in case r of
           Rejected e \<Rightarrow> st1
         | Response status body \<Rightarrow>
             (let st2 = st1\<lparr>conversations :=
                             filter (\<lambda>c. conv_id c \<noteq> conversationId) (conversations st)\<rparr>
              in if map_option conv_id (currentConversation st) = Some conversationId
                 then st2\<lparr>currentConversation := None, currentSession := None, messages := []\<rparr>
                 else st2))"

section \<open>Sending a message\<close>

text \<open>The guard on the first line of \<open>sendMessage\<close>, in the order of the source.\<close>

definition sendGuard :: "auth_user option \<Rightarrow> page \<Rightarrow> bool" where
  "sendGuard user st =
     (trim (inputMessage st) = [] \<or> loading st \<or> currentSession st = None \<or> user = None)"

text \<open>The \<open>disabled\<close> attribute of the send button.\<close>

definition sendDisabled :: "auth_user option \<Rightarrow> page \<Rightarrow> bool" where
  "sendDisabled user st =
     (trim (inputMessage st) = [] \<or> loading st \<or> currentSession st = None \<or> user = None)"

text \<open>
  What the part of \<open>sendMessage\<close> after \<open>await fetch\<close> still holds of the render that started
  it: \<open>updatedMessages\<close>, \<open>inputMessage\<close>, \<open>currentConversation\<close> and \<open>conversations\<close>.
\<close>

record send_closure =
  sc_updatedMessages :: "message list"
  sc_inputMessage :: string
  sc_currentConversation :: "conversation option"
  sc_conversations :: "conversation list"

definition chatRequest :: "string option \<Rightarrow> string \<Rightarrow> string \<Rightarrow> string \<Rightarrow> request" where
  "chatRequest tok uid sid query =
     \<lparr>req_method = ''POST'', req_url = ''/api/chat/message'',
      req_authorization = authorization tok,
      req_body = [(''user_id'', uid), (''session_id'', sid), (''query'', query)]\<rparr>"

text \<open>
  \<open>sendMessage\<close> up to \<open>await fetch\<close>: the guard, the optimistic append, and the one
  request. The result is the new state and, unless the guard returned, the closure that
  the rest of the function runs with.
\<close>

definition sendMessage_start ::
  "auth_user option \<Rightarrow> clock \<Rightarrow> page \<Rightarrow> page \<times> send_closure option" where
  "sendMessage_start user t0 st =
     (if sendGuard user st then (st, None)
      else case user of
        None \<Rightarrow> (st, None)
      | Some u \<Rightarrow>
         (case currentSession st of
            None \<Rightarrow> (st, None)
          | Some session \<Rightarrow>
             (let userMessage = \<lparr>msg_id = toString (now t0), msg_role = User,
                                 msg_content = inputMessage st, msg_timestamp = iso t0\<rparr>;
                  updatedMessages = messages st @ [userMessage];
                  st1 = setTimeout FocusInput 0
                          (st\<lparr>messages := updatedMessages, inputMessage := [], loading := True\<rparr>);
                  st2 = st1\<lparr>requests := requests st1 @
                                [chatRequest (token st1) (user_id u) (session_id session)
                                   (inputMessage st)]\<rparr>
              in (st2, Some \<lparr>sc_updatedMessages = updatedMessages,
                             sc_inputMessage = inputMessage st,
                             sc_currentConversation = currentConversation st,
                             sc_conversations = conversations st\<rparr>))))"

text \<open>
  The abort timer and \<open>await fetch\<close>: \<open>setTimeout(() => controller.abort(), timeout)\<close> is
  set just before the fetch. \<open>latency\<close> is the time in milliseconds after which the fetch
  would settle by itself, that is, resolve with the status line and headers of the answer
  or reject; \<open>None\<close> if it never does. A fetch that has not settled when the timer fires
  rejects with an \<open>AbortError\<close>. The body of \<open>r\<close> is not read here.
\<close>

definition fetchWithTimeout :: "nat \<Rightarrow> nat option \<Rightarrow> 'a fetched \<Rightarrow> 'a fetched" where
  "fetchWithTimeout timeout latency r =
     (case latency of
        None \<Rightarrow> Rejected AbortError
      | Some d \<Rightarrow> (if d < timeout then r else Rejected AbortError))"

definition assistantMessageAt :: "clock \<Rightarrow> string \<Rightarrow> message" where
  "assistantMessageAt t1 text =
     \<lparr>msg_id = toString (now t1 + 1), msg_role = Assistant,
      msg_content = text, msg_timestamp = iso t1\<rparr>"

text \<open>The \<open>catch\<close> block of \<open>sendMessage\<close>.\<close>

definition sendMessage_catch :: "send_closure \<Rightarrow> clock \<Rightarrow> thrown \<Rightarrow> page \<Rightarrow> page" where
  "sendMessage_catch cl t1 error st =
     (if error = AbortError then
        st\<lparr>messages := sc_updatedMessages cl @
              [assistantMessageAt t1 ''Request timed out. Please try again.'']\<rparr>
      else if error = HttpError 401 then
        setTimeout PurgeTokenAndReload 3000
          (st\<lparr>messages := sc_updatedMessages cl @
                [assistantMessageAt t1
                   ''Your session has expired. Please refresh the page and log in again.'']\<rparr>)
      else
        st\<lparr>messages := sc_updatedMessages cl @
              [assistantMessageAt t1 ''Sorry, I encountered an error. Please try again.'']\<rparr>)"

text \<open>
  The rest of the \<open>try\<close> block once the answer is OK and parsed; \<open>loadUserStats()\<close> is
  started and not awaited, so only its request shows here.
\<close>

definition sendMessage_success :: "send_closure \<Rightarrow> clock \<Rightarrow> string \<Rightarrow> page \<Rightarrow> page" where
  "sendMessage_success cl t1 response st =
     (let finalMessages = sc_updatedMessages cl @ [assistantMessageAt t1 response];
          st1 = st\<lparr>messages := finalMessages\<rparr>;
          st2 = (case sc_currentConversation cl of
                   None \<Rightarrow> st1
                 | Some cc \<Rightarrow>
                     (let updatedConversation =
                            cc\<lparr>conv_messages := finalMessages,
                               conv_title := (if length finalMessages = 2
                                              then take 50 (sc_inputMessage cl) @ ''...''
                                              else conv_title cc)\<rparr>
                      in st1\<lparr>currentConversation := Some updatedConversation,
                             conversations :=
                               map (\<lambda>c. if conv_id c = conv_id cc then updatedConversation else c)
                                   (sc_conversations cl)\<rparr>));
          st3 = st2\<lparr>requests := requests st2 @ [getRequest (token st2) ''/api/user/stats'']\<rparr>
      in setTimeout FocusInput 100 st3)"

text \<open>The \<open>finally\<close> block.\<close>

definition sendMessage_finally :: "page \<Rightarrow> page" where
  "sendMessage_finally st = setTimeout FocusInput 150 (st\<lparr>loading := False\<rparr>)"

text \<open>
  \<open>sendMessage\<close> after \<open>await fetch\<close>, on the state \<open>st\<close> the page has by then: a response that
  is not OK throws \<open>{status, message}\<close>, a body that does not parse throws as well.
\<close>

definition sendMessage_settle :: "send_closure \<Rightarrow> clock \<Rightarrow> string fetched \<Rightarrow> page \<Rightarrow> page" where
  "sendMessage_settle cl t1 r st =
     sendMessage_finally
       (case r of
          Rejected error \<Rightarrow> sendMessage_catch cl t1 error st
        | Response status body \<Rightarrow>
            if \<not> responseOk status then sendMessage_catch cl t1 (HttpError status) st
            else (case body of
                    None \<Rightarrow> sendMessage_catch cl t1 OtherError st
                  | Some response \<Rightarrow> sendMessage_success cl t1 response st))"

text \<open>
  The two awaits of the \<open>try\<close> block. \<open>clearTimeout(timeoutId)\<close> runs as soon as the fetch
  has resolved, so the timer bounds \<open>await fetch\<close> only. A response that is not OK throws at
  once and its body is never read. For an OK response \<open>await fetchResponse.json()\<close> follows
  with no timer: \<open>bodyLatency\<close> is the time in milliseconds that the read takes, \<open>None\<close> if
  the body never completes. The result is what the rest of the function runs on, and
  \<open>None\<close> when an await never resumes.
\<close>

definition awaitResponse ::
  "nat \<Rightarrow> nat option \<Rightarrow> nat option \<Rightarrow> 'a fetched \<Rightarrow> 'a fetched option" where
  "awaitResponse timeout latency bodyLatency r =
     (case fetchWithTimeout timeout latency r of
        Rejected error \<Rightarrow> Some (Rejected error)
      | Response status body \<Rightarrow>
          if \<not> responseOk status then Some (Response status body)
          else (case bodyLatency of
                  None \<Rightarrow> None
                | Some b \<Rightarrow> Some (Response status body)))"

text \<open>
  The time in milliseconds, counted from the fetch, at which the awaits are over and the
  \<open>catch\<close> or the rest of the \<open>try\<close> block runs; \<open>None\<close> when that never happens.
\<close>

definition settledAt :: "nat \<Rightarrow> nat option \<Rightarrow> nat option \<Rightarrow> 'a fetched \<Rightarrow> nat option" where
  "settledAt timeout latency bodyLatency r =
     (case latency of
        None \<Rightarrow> Some timeout
      | Some d \<Rightarrow>
          if d < timeout then
            (case r of
               Rejected error \<Rightarrow> Some d
             | Response status body \<Rightarrow>
                 if \<not> responseOk status then Some d
                 else (case bodyLatency of None \<Rightarrow> None | Some b \<Rightarrow> Some (d + b)))
          else Some timeout)"

text \<open>
  The whole of \<open>sendMessage\<close> when nothing else touches the page in between, with the
  60000 ms of the source. While an await has not resumed, the page is as the first part
  left it.
\<close>

definition sendMessage ::
  "auth_user option \<Rightarrow> clock \<Rightarrow> clock \<Rightarrow> nat option \<Rightarrow> nat option \<Rightarrow> string fetched \<Rightarrow>
   page \<Rightarrow> page" where
  "sendMessage user t0 t1 latency bodyLatency r st =
     (case sendMessage_start user t0 st of
        (st1, None) \<Rightarrow> st1
      | (st1, Some cl) \<Rightarrow>
          (case awaitResponse 60000 latency bodyLatency r of
             None \<Rightarrow> st1
           | Some r' \<Rightarrow> sendMessage_settle cl t1 r' st1))"

text \<open>The callback of the three-second timer that a 401 answer to a send leaves behind.\<close>

definition runTimer :: "timer_action \<Rightarrow> page \<Rightarrow> page" where
  "runTimer f st =
     (case f of
        FocusInput \<Rightarrow> st
      | PurgeTokenAndReload \<Rightarrow> st\<lparr>token := None, reloads := reloads st + 1\<rparr>)"

section \<open>The session store and the conversation log (init.sql)\<close>

text \<open>
  A row of \<open>sessions\<close> and a row of \<open>conversations\<close>, with the columns the operations below
  read or write. Timestamps are points on an integer time line. A column that may be
  \<open>NULL\<close> is an option; \<open>expires_at\<close>, \<open>message\<close> and \<open>response\<close> are \<open>NOT NULL\<close>.
\<close>

record session_row =
  row_id :: string
  row_user_id :: "string option"
  row_created_at :: "int option"
  row_last_activity :: "int option"
  row_expires_at :: int

record conversation_row =
  crow_id :: string
  crow_user_id :: "string option"
  crow_session_id :: "string option"
  crow_message :: string
  crow_response :: string
  crow_timestamp :: "int option"

record database =
  db_sessions :: "session_row list"
  db_conversations :: "conversation_row list"

definition empty_database :: database where
  "empty_database = \<lparr>db_sessions = [], db_conversations = []\<rparr>"

text \<open>
  \<open>DELETE FROM sessions WHERE p\<close>: the rows that satisfy \<open>p\<close> go, and with them, through
  \<open>session_id ... REFERENCES sessions(id) ON DELETE CASCADE\<close>, every row of \<open>conversations\<close>
  that references one of them. The number returned is \<open>ROW_COUNT\<close>, which counts the rows
  of \<open>sessions\<close> only.
\<close>

definition delete_sessions_where ::
  "(session_row \<Rightarrow> bool) \<Rightarrow> database \<Rightarrow> database \<times> nat" where
  "delete_sessions_where p db =
     (let deleted = filter p (db_sessions db);
          ids = map row_id deleted
      in (\<lparr>db_sessions = filter (\<lambda>s. \<not> p s) (db_sessions db),
           db_conversations =
             filter (\<lambda>c. case crow_session_id c of
                            None \<Rightarrow> True
                          | Some sid \<Rightarrow> sid \<notin> set ids)
                    (db_conversations db)\<rparr>,
          length deleted))"

text \<open>
  \<^verbatim>\<open>clean_expired_sessions()\<close>: \<^verbatim>\<open>DELETE FROM sessions WHERE expires_at < CURRENT_TIMESTAMP\<close>,
  then \<^verbatim>\<open>GET DIAGNOSTICS deleted_count = ROW_COUNT; RETURN deleted_count\<close>.
\<close>

definition clean_expired_sessions :: "int \<Rightarrow> database \<Rightarrow> database \<times> nat" where
  "clean_expired_sessions current_timestamp db =
     delete_sessions_where (\<lambda>s. row_expires_at s < current_timestamp) db"

text \<open>
  Modelled from the spec: \<open>createSession(owner)\<close> of the Session Store, whose code is not in
  the sources. "Allocates a new id, sets created_at = now, expires_at = now + fixed TTL,
  empty state." The id and the TTL are parameters; the primary key refuses an id that is
  already there.
\<close>

definition createSession :: "int \<Rightarrow> string \<Rightarrow> string \<Rightarrow> int \<Rightarrow> database \<Rightarrow> database" where
  "createSession ttl owner new_id now_ts db =
     (if new_id \<in> set (map row_id (db_sessions db)) then db
      else db\<lparr>db_sessions := db_sessions db @
                [\<lparr>row_id = new_id, row_user_id = Some owner, row_created_at = Some now_ts,
                  row_last_activity = Some now_ts, row_expires_at = now_ts + ttl\<rparr>]\<rparr>)"

text \<open>
  Modelled from the spec: \<open>listSessions(owner)\<close>, whose code is not in the sources. "Returns
  all sessions for the owner, live or expired"; the order of the answer is left open.
\<close>

definition listSessions :: "string \<Rightarrow> database \<Rightarrow> session_row list" where
  "listSessions owner db = filter (\<lambda>s. row_user_id s = Some owner) (db_sessions db)"

text \<open>
  Modelled from the spec: \<open>deleteSession(id, owner)\<close>, whose code is not in the sources.
  "Removes the session and, by cascade, its turns; fails silently/idempotently if already
  absent." The cascade is the one of the schema.
\<close>

definition deleteSession :: "string \<Rightarrow> string \<Rightarrow> database \<Rightarrow> database" where
  "deleteSession sid owner db =
     fst (delete_sessions_where (\<lambda>s. row_id s = sid \<and> row_user_id s = Some owner) db)"

text \<open>
  Modelled from the spec: \<open>appendTurn(session, message)\<close> of the Conversation Log, whose code
  is not in the sources. One row per turn, a matched message and response, written for a
  session that exists; "last_activity refreshed on each turn".
\<close>

definition appendTurn ::
  "string \<Rightarrow> string \<Rightarrow> string \<Rightarrow> string \<Rightarrow> int \<Rightarrow> database \<Rightarrow> database" where
  "appendTurn new_id sid msg resp now_ts db =
     (case find (\<lambda>s. row_id s = sid) (db_sessions db) of
        None \<Rightarrow> db
      | Some session \<Rightarrow>
          \<lparr>db_sessions =
             map (\<lambda>s. if row_id s = sid then s\<lparr>row_last_activity := Some now_ts\<rparr> else s)
                 (db_sessions db),
           db_conversations = db_conversations db @
             [\<lparr>crow_id = new_id, crow_user_id = row_user_id session,
               crow_session_id = Some sid, crow_message = msg, crow_response = resp,
               crow_timestamp = Some now_ts\<rparr>]\<rparr>)"

text \<open>
  Modelled from the spec: the liveness test of the Session Store, whose code is not in the
  sources. "A session is live iff current time < expires_at."
\<close>

definition live :: "int \<Rightarrow> session_row \<Rightarrow> bool" where
  "live now_ts s = (now_ts < row_expires_at s)"

text \<open>The invariant of a session row: \<open>expires_at > created_at\<close>.\<close>

definition session_invariant :: "session_row \<Rightarrow> bool" where
  "session_invariant s =
     (case row_created_at s of None \<Rightarrow> False | Some c \<Rightarrow> c < row_expires_at s)"

text \<open>
  The states of the store: the empty tables, and whatever the operations of the Session
  Store and the Conversation Log make of a state, for a fixed TTL.
\<close>

inductive reachable :: "int \<Rightarrow> database \<Rightarrow> bool" for ttl :: int where
  reach_empty: "reachable ttl empty_database"
| reach_create: "reachable ttl db \<Longrightarrow> reachable ttl (createSession ttl owner new_id now_ts db)"
| reach_delete: "reachable ttl db \<Longrightarrow> reachable ttl (deleteSession sid owner db)"
| reach_expire: "reachable ttl db \<Longrightarrow> reachable ttl (fst (clean_expired_sessions now_ts db))"
| reach_append: "reachable ttl db \<Longrightarrow> reachable ttl (appendTurn new_id sid msg resp now_ts db)"

section \<open>Notions used in the statements and proofs\<close>

text \<open>The two messages that one turn contributes.\<close>

definition userMessageOf :: "turn \<Rightarrow> message" where
  "userMessageOf conv = \<lparr>msg_id = turn_id conv @ ''-user'', msg_role = User,
          msg_content = turn_message conv, msg_timestamp = turn_timestamp conv\<rparr>"

definition assistantMessageOf :: "turn \<Rightarrow> message" where
  "assistantMessageOf conv = \<lparr>msg_id = turn_id conv @ ''-assistant'', msg_role = Assistant,
          msg_content = turn_response conv, msg_timestamp = turn_timestamp conv\<rparr>"

text \<open>The order the sort sees: \<open>x\<close> may stay before \<open>y\<close> when the comparator's result is not positive.\<close>

definition sortsBefore :: "('a \<Rightarrow> 'a \<Rightarrow> int option) \<Rightarrow> 'a \<Rightarrow> 'a \<Rightarrow> bool" where
  "sortsBefore comparefn x y = (sortCompare comparefn x y \<le> 0)"

text \<open>A conversation whose \<open>created_at\<close> parses as a date.\<close>

definition validDate :: "(string \<Rightarrow> int option) \<Rightarrow> conversation \<Rightarrow> bool" where
  "validDate getTime c = (getTime (conv_created_at c) \<noteq> None)"

text \<open>The optimistic user message of \<open>sendMessage\<close>.\<close>

definition userMessageAt :: "clock \<Rightarrow> string \<Rightarrow> message" where
  "userMessageAt t0 text =
     \<lparr>msg_id = toString (now t0), msg_role = User, msg_content = text, msg_timestamp = iso t0\<rparr>"

text \<open>The text the \<open>catch\<close> block chooses for a thrown value.\<close>

definition errorText :: "thrown \<Rightarrow> string" where
  "errorText error =
     (if error = AbortError then ''Request timed out. Please try again.''
      else if error = HttpError 401
      then ''Your session has expired. Please refresh the page and log in again.''
      else ''Sorry, I encountered an error. Please try again.'')"

text \<open>The value that reaches the \<open>catch\<close> block for an answer, if any.\<close>

definition thrownBy :: "string fetched \<Rightarrow> thrown option" where
  "thrownBy r =
     (case r of
        Rejected e \<Rightarrow> Some e
      | Response status body \<Rightarrow>
          if \<not> responseOk status then Some (HttpError status)
          else (case body of None \<Rightarrow> Some OtherError | Some response \<Rightarrow> None))"

subsection \<open>Sample data\<close>

text \<open>
  A turn, two sessions, a date parser that knows their two dates, and the two
  conversations that are rebuilt from them: \<open>convA\<close> is newer and empty, \<open>convB\<close> is older
  and has one turn.
\<close>

definition exampleTurn :: turn where
  "exampleTurn = \<lparr>turn_id = ''7'', turn_message = ''Hello'', turn_response = ''Hi there'',
                   turn_timestamp = ''2024-01-01T10:00:00Z''\<rparr>"

definition sessionA :: session_info where
  "sessionA = \<lparr>session_id = ''A'', session_created_at = ''2024-02-01''\<rparr>"

definition sessionB :: session_info where
  "sessionB = \<lparr>session_id = ''B'', session_created_at = ''2024-01-01''\<rparr>"

definition exampleGetTime :: "string \<Rightarrow> int option" where
  "exampleGetTime s =
     (if s = ''2024-01-01'' then Some 1704067200000
      else if s = ''2024-02-01'' then Some 1706745600000
      else None)"

definition convA :: conversation where
  "convA = conversationOf sessionA (Some [])"

definition convB :: conversation where
  "convB = conversationOf sessionB (Some [exampleTurn])"

text \<open>A page with \<open>convB\<close> selected, a message typed, and a token stored; a user; two clock readings.\<close>

definition examplePage :: page where
  "examplePage =
     \<lparr>conversations = [convB, convA], sessions = [sessionA, sessionB],
      currentConversation = Some convB, currentSession = Some sessionB,
      messages = conv_messages convB, inputMessage = ''How are you?'', loading = False,
      token = Some ''secret'', reloads = 0, requests = [], timers = []\<rparr>"

definition exampleUser :: "auth_user option" where
  "exampleUser = Some \<lparr>user_id = ''u1'', username = ''demo_user''\<rparr>"

definition clock0 :: clock where
  "clock0 = \<lparr>now = 1704103200000, iso = ''2024-01-01T10:00:00.000Z''\<rparr>"

definition clock1 :: clock where
  "clock1 = \<lparr>now = 1704103260000, iso = ''2024-01-01T10:01:00.000Z''\<rparr>"

text \<open>
  A store with one session of user \<open>u1\<close>, created at time 1000 with a TTL of 3600, and one
  turn in it; and two session rows that expire at 50 and at 100.
\<close>

definition exampleDatabase :: database where
  "exampleDatabase =
     appendTurn ''c1'' ''s1'' ''Hello'' ''Hi there'' 1005
       (createSession 3600 ''u1'' ''s1'' 1000 empty_database)"

definition rowOld :: session_row where
  "rowOld = \<lparr>row_id = ''old'', row_user_id = Some ''u1'', row_created_at = Some 10,
              row_last_activity = Some 10, row_expires_at = 50\<rparr>"

definition rowEdge :: session_row where
  "rowEdge = \<lparr>row_id = ''edge'', row_user_id = Some ''u1'', row_created_at = Some 60,
               row_last_activity = Some 60, row_expires_at = 100\<rparr>"

definition sweepDatabase :: database where
  "sweepDatabase =
     \<lparr>db_sessions = [rowOld, rowEdge],
      db_conversations =
        [\<lparr>crow_id = ''c9'', crow_user_id = Some ''u1'', crow_session_id = Some ''old'',
          crow_message = ''Hello'', crow_response = ''Hi there'', crow_timestamp = Some 20\<rparr>]\<rparr>"

section \<open>Auxiliary lemmas\<close>

lemma foldl_pushTurn:
  "foldl pushTurn acc ts = acc @ concat (map (\<lambda>t. [userMessageOf t, assistantMessageOf t]) ts)"
  by (induction ts arbitrary: acc) (simp_all add: pushTurn_def userMessageOf_def assistantMessageOf_def)

lemma historyMessages_concat:
  "historyMessages ts = concat (map (\<lambda>t. [userMessageOf t, assistantMessageOf t]) ts)"
  by (simp add: historyMessages_def foldl_pushTurn)

lemma length_concat_pairs: "length (concat (map (\<lambda>t. [f t, g t]) ts)) = 2 * length ts"
  by (induction ts) simp_all

lemma nth_concat_pairs:
  "i < length ts \<Longrightarrow>
     concat (map (\<lambda>t. [f t, g t]) ts) ! (2 * i) = f (ts ! i) \<and>
     concat (map (\<lambda>t. [f t, g t]) ts) ! (2 * i + 1) = g (ts ! i)"
proof (induction ts arbitrary: i)
  case Nil
  then show ?case by simp
next
  case (Cons t ts)
  show ?case
  proof (cases i)
    case 0
    then show ?thesis by simp
  next
    case (Suc k)
    with Cons.prems have "k < length ts" by simp
    from Cons.IH [OF this] Suc show ?thesis by simp
  qed
qed

lemma set_insertSorted: "set (insertSorted c x ys) = insert x (set ys)"
  by (induction ys) auto

lemma mset_insertSorted: "mset (insertSorted c x ys) = add_mset x (mset ys)"
  by (induction ys) simp_all

lemma mset_arraySort: "mset (arraySort c xs) = mset xs"
  by (induction xs) (simp_all add: arraySort_def mset_insertSorted)

lemma set_arraySort: "set (arraySort c xs) = set xs"
  using mset_arraySort [of c xs] by (metis set_mset_mset)

lemma sorted_insertSorted:
  assumes total: "\<And>a b. a \<in> A \<Longrightarrow> b \<in> A \<Longrightarrow> sortsBefore c a b \<or> sortsBefore c b a"
    and trans: "\<And>a b d. a \<in> A \<Longrightarrow> b \<in> A \<Longrightarrow> d \<in> A \<Longrightarrow>
                  sortsBefore c a b \<Longrightarrow> sortsBefore c b d \<Longrightarrow> sortsBefore c a d"
    and "x \<in> A" and "set ys \<subseteq> A" and "sorted_wrt (sortsBefore c) ys"
  shows "sorted_wrt (sortsBefore c) (insertSorted c x ys)"
  using assms(3-)
proof (induction ys)
  case Nil
  then show ?case by simp
next
  case (Cons y ys)
  show ?case
  proof (cases "sortCompare c x y \<le> 0")
    case True
    then have xy: "sortsBefore c x y" by (simp add: sortsBefore_def)
    have "\<forall>z\<in>set ys. sortsBefore c x z"
    proof
      fix z assume z: "z \<in> set ys"
      with Cons.prems have "sortsBefore c y z" by simp
      with xy show "sortsBefore c x z"
        using trans [of x y z] Cons.prems z by auto
    qed
    with True xy Cons.prems show ?thesis by simp
  next
    case False
    then have "\<not> sortsBefore c x y" by (simp add: sortsBefore_def)
    with total [of x y] Cons.prems have yx: "sortsBefore c y x" by auto
    have ih: "sorted_wrt (sortsBefore c) (insertSorted c x ys)"
      using Cons.IH Cons.prems by simp
    from False yx ih Cons.prems show ?thesis
      by (simp add: set_insertSorted)
  qed
qed

lemma sorted_arraySort:
  assumes total: "\<And>a b. a \<in> A \<Longrightarrow> b \<in> A \<Longrightarrow> sortsBefore c a b \<or> sortsBefore c b a"
    and trans: "\<And>a b d. a \<in> A \<Longrightarrow> b \<in> A \<Longrightarrow> d \<in> A \<Longrightarrow>
                  sortsBefore c a b \<Longrightarrow> sortsBefore c b d \<Longrightarrow> sortsBefore c a d"
    and "set xs \<subseteq> A"
  shows "sorted_wrt (sortsBefore c) (arraySort c xs)"
  using assms(3)
proof (induction xs)
  case Nil
  then show ?case by (simp add: arraySort_def)
next
  case (Cons x xs)
  then have ih: "sorted_wrt (sortsBefore c) (arraySort c xs)" by simp
  have sub: "set (arraySort c xs) \<subseteq> A" using Cons.prems by (simp add: set_arraySort)
  have "x \<in> A" using Cons.prems by simp
  from sorted_insertSorted [of A c x "arraySort c xs", OF total trans this sub ih]
  show ?case by (simp add: arraySort_def)
qed

lemma compare_total:
  "validDate g a \<Longrightarrow> validDate g b \<Longrightarrow>
   sortsBefore (compareConversations g) a b \<or> sortsBefore (compareConversations g) b a"
  by (auto simp: validDate_def sortsBefore_def sortCompare_def compareConversations_def)

lemma compare_trans:
  "validDate g a \<Longrightarrow> validDate g b \<Longrightarrow> validDate g d \<Longrightarrow>
   sortsBefore (compareConversations g) a b \<Longrightarrow> sortsBefore (compareConversations g) b d \<Longrightarrow>
   sortsBefore (compareConversations g) a d"
  by (auto simp: validDate_def sortsBefore_def sortCompare_def compareConversations_def
           split: if_splits)

lemma sorted_sortConversations:
  assumes "\<forall>c\<in>set cs. validDate g c"
  shows "sorted_wrt (sortsBefore (compareConversations g)) (sortConversations g cs)"
  unfolding sortConversations_def
proof (rule sorted_arraySort [where A = "{c. validDate g c}"])
  show "set cs \<subseteq> {c. validDate g c}" using assms by auto
qed (simp_all add: compare_total, use compare_trans in blast)

lemma sorted_index_order:
  assumes "sorted_wrt le r" and "i < length r" and "j < length r"
    and "\<not> le (r ! j) (r ! i)" and "i \<noteq> j"
  shows "i < j"
proof (rule ccontr)
  assume "\<not> i < j"
  with assms(5) have "j < i" by simp
  from sorted_wrt_nth_less [OF assms(1) this assms(2)] assms(4) show False by simp
qed

lemma start_Some:
  assumes "sendMessage_start user t0 st = (st1, Some cl)"
  shows "\<not> sendGuard user st"
    and "sc_updatedMessages cl = messages st @ [userMessageAt t0 (inputMessage st)]"
    and "messages st1 = messages st @ [userMessageAt t0 (inputMessage st)]"
    and "loading st1"
    and "inputMessage st1 = []"
    and "length (requests st1) = length (requests st) + 1"
  using assms
  by (auto simp: sendMessage_start_def Let_def setTimeout_def userMessageAt_def
           split: if_splits option.splits)

lemma start_guard: "sendGuard user st \<Longrightarrow> sendMessage_start user t0 st = (st, None)"
  by (simp add: sendMessage_start_def)

lemma start_not_guard:
  "\<not> sendGuard user st \<Longrightarrow> \<exists>st1 cl. sendMessage_start user t0 st = (st1, Some cl)"
  by (auto simp: sendMessage_start_def sendGuard_def Let_def split: option.splits)

lemma finally_fields:
  "messages (sendMessage_finally st) = messages st"
  "loading (sendMessage_finally st) = False"
  "requests (sendMessage_finally st) = requests st"
  "token (sendMessage_finally st) = token st"
  "reloads (sendMessage_finally st) = reloads st"
  "timers (sendMessage_finally st) = timers st @ [(150, FocusInput)]"
  by (simp_all add: sendMessage_finally_def setTimeout_def)

lemma catch_fields:
  "messages (sendMessage_catch cl t1 e st) =
     sc_updatedMessages cl @ [assistantMessageAt t1 (errorText e)]"
  "requests (sendMessage_catch cl t1 e st) = requests st"
  "token (sendMessage_catch cl t1 e st) = token st"
  "reloads (sendMessage_catch cl t1 e st) = reloads st"
  "timers (sendMessage_catch cl t1 e st) =
     timers st @ (if e = HttpError 401 then [(3000, PurgeTokenAndReload)] else [])"
  by (simp_all add: sendMessage_catch_def setTimeout_def errorText_def)

lemma settle_thrown:
  "thrownBy r = Some e \<Longrightarrow>
   sendMessage_settle cl t1 r st = sendMessage_finally (sendMessage_catch cl t1 e st)"
  by (auto simp: thrownBy_def sendMessage_settle_def split: fetched.splits if_splits option.splits)

lemma success_messages:
  "messages (sendMessage_success cl t1 response st) =
     sc_updatedMessages cl @ [assistantMessageAt t1 response]"
  by (simp add: sendMessage_success_def Let_def setTimeout_def split: option.splits)

lemma fetch_in_time: "d < timeout \<Longrightarrow> fetchWithTimeout timeout (Some d) r = r"
  by (simp add: fetchWithTimeout_def)

lemma fetch_late:
  "latency = None \<or> (\<exists>d. latency = Some d \<and> timeout \<le> d) \<Longrightarrow>
   fetchWithTimeout timeout latency r = Rejected AbortError"
  by (auto simp: fetchWithTimeout_def)

lemma await_thrown:
  "r = Rejected e \<or> (r = Response status body \<and> \<not> responseOk status) \<Longrightarrow>
   awaitResponse timeout latency bodyLatency r = Some (fetchWithTimeout timeout latency r)"
  by (auto simp: awaitResponse_def fetchWithTimeout_def split: option.splits)

lemma await_late:
  "latency = None \<or> (\<exists>d. latency = Some d \<and> timeout \<le> d) \<Longrightarrow>
   awaitResponse timeout latency bodyLatency r = Some (Rejected AbortError)"
  by (simp add: awaitResponse_def fetch_late)

lemma await_in_time:
  "d < timeout \<Longrightarrow>
   awaitResponse timeout (Some d) (Some b) r = Some r"
  by (simp add: awaitResponse_def fetch_in_time split: fetched.splits)

lemma settled_iff_resumed:
  "(settledAt timeout latency bodyLatency r = None) =
   (awaitResponse timeout latency bodyLatency r = None)"
  by (auto simp: settledAt_def awaitResponse_def fetchWithTimeout_def
           split: option.splits fetched.splits)

lemma send_timeout_aborts:
  assumes start: "sendMessage_start user t0 st = (st1, Some cl)"
    and late: "latency = None \<or> (\<exists>d. latency = Some d \<and> 60000 \<le> d)"
  shows "messages (sendMessage user t0 t1 latency bodyLatency r st) =
           messages st @ [userMessageAt t0 (inputMessage st),
                          assistantMessageAt t1 ''Request timed out. Please try again.'']"
    and "length (requests (sendMessage user t0 t1 latency bodyLatency r st)) =
           length (requests st) + 1"
    and "\<not> loading (sendMessage user t0 t1 latency bodyLatency r st)"
proof -
  have whole: "sendMessage user t0 t1 latency bodyLatency r st =
      sendMessage_finally (sendMessage_catch cl t1 AbortError st1)"
    by (simp add: sendMessage_def start await_late [OF late] sendMessage_settle_def)
  show "messages (sendMessage user t0 t1 latency bodyLatency r st) =
           messages st @ [userMessageAt t0 (inputMessage st),
                          assistantMessageAt t1 ''Request timed out. Please try again.'']"
    by (simp add: whole finally_fields catch_fields start_Some(2) [OF start] errorText_def)
  show "length (requests (sendMessage user t0 t1 latency bodyLatency r st)) =
           length (requests st) + 1"
    by (simp add: whole finally_fields catch_fields start_Some(6) [OF start])
  show "\<not> loading (sendMessage user t0 t1 latency bodyLatency r st)"
    by (simp add: whole finally_fields)
qed

lemma send_in_time_delivered:
  assumes start: "sendMessage_start user t0 st = (st1, Some cl)"
    and "d < 60000"
  shows "sendMessage user t0 t1 (Some d) (Some b) r st = sendMessage_settle cl t1 r st1"
  by (simp add: sendMessage_def start await_in_time [OF assms(2)])

lemma failing_end_no_request:
  "thrownBy r = Some e \<Longrightarrow> requests (sendMessage_settle cl t1 r st) = requests st"
  by (simp add: settle_thrown finally_fields catch_fields)

lemma example_start:
  "sendMessage_start exampleUser clock0 examplePage =
     (fst (sendMessage_start exampleUser clock0 examplePage),
      Some (the (snd (sendMessage_start exampleUser clock0 examplePage))))"
proof -
  have "\<not> sendGuard exampleUser examplePage"
    by (simp add: sendGuard_def examplePage_def exampleUser_def trim_def isWhiteSpace_def)
  from start_not_guard [OF this, of clock0] show ?thesis by auto
qed

lemma example_start_timers:
  "timers (fst (sendMessage_start exampleUser clock0 examplePage)) = [(0, FocusInput)]"
proof -
  have "\<not> sendGuard exampleUser examplePage"
    by (simp add: sendGuard_def examplePage_def exampleUser_def trim_def isWhiteSpace_def)
  then show ?thesis
    by (simp add: sendMessage_start_def examplePage_def exampleUser_def setTimeout_def Let_def)
qed

lemma example_send:
  "sendMessage exampleUser clock0 clock1 latency bodyLatency r examplePage =
     (case awaitResponse 60000 latency bodyLatency r of
        None \<Rightarrow> fst (sendMessage_start exampleUser clock0 examplePage)
      | Some r' \<Rightarrow>
          sendMessage_settle (the (snd (sendMessage_start exampleUser clock0 examplePage)))
            clock1 r' (fst (sendMessage_start exampleUser clock0 examplePage)))"
proof -
  obtain st1 cl where started: "sendMessage_start exampleUser clock0 examplePage = (st1, Some cl)"
    using example_start by blast
  show ?thesis by (simp add: sendMessage_def started split: option.splits)
qed

lemma settle_delivered:
  "messages (sendMessage_settle cl t1 (Response 200 (Some response)) st) =
     sc_updatedMessages cl @ [assistantMessageAt t1 response]"
  by (simp add: sendMessage_settle_def responseOk_def finally_fields success_messages)

lemma settle_aborted:
  "messages (sendMessage_settle cl t1 (Rejected AbortError) st) =
     sc_updatedMessages cl @ [assistantMessageAt t1 ''Request timed out. Please try again.'']"
  by (simp add: sendMessage_settle_def finally_fields catch_fields errorText_def)

lemma trim_empty_iff: "trim s = [] \<longleftrightarrow> (\<forall>c\<in>set s. isWhiteSpace c)"
proof
  assume "trim s = []"
  then have "dropWhile isWhiteSpace (rev (dropWhile isWhiteSpace s)) = []"
    by (simp add: trim_def)
  then have all: "\<forall>c\<in>set (dropWhile isWhiteSpace s). isWhiteSpace c"
    by (simp add: dropWhile_eq_Nil_conv)
  have "dropWhile isWhiteSpace s = []"
  proof (rule ccontr)
    assume ne: "dropWhile isWhiteSpace s \<noteq> []"
    then have "\<not> isWhiteSpace (hd (dropWhile isWhiteSpace s))" by (rule hd_dropWhile)
    moreover have "hd (dropWhile isWhiteSpace s) \<in> set (dropWhile isWhiteSpace s)"
      using ne by simp
    ultimately show False using all by blast
  qed
  then show "\<forall>c\<in>set s. isWhiteSpace c" by (simp add: dropWhile_eq_Nil_conv)
next
  assume "\<forall>c\<in>set s. isWhiteSpace c"
  then show "trim s = []" by (auto simp: trim_def dest: set_dropWhileD)
qed

lemma delete_sessions_rows:
  "db_sessions (fst (delete_sessions_where p db)) = filter (\<lambda>s. \<not> p s) (db_sessions db)"
  "snd (delete_sessions_where p db) = length (filter p (db_sessions db))"
  "db_conversations (fst (delete_sessions_where p db)) =
     filter (\<lambda>c. case crow_session_id c of
                    None \<Rightarrow> True
                  | Some sid \<Rightarrow> sid \<notin> set (map row_id (filter p (db_sessions db))))
            (db_conversations db)"
  by (simp_all add: delete_sessions_where_def Let_def)

lemma invariant_delete_where:
  "\<forall>s\<in>set (db_sessions db). session_invariant s \<Longrightarrow>
   \<forall>s\<in>set (db_sessions (fst (delete_sessions_where p db))). session_invariant s"
  by (simp add: delete_sessions_rows)

lemma invariant_create:
  "0 < ttl \<Longrightarrow> \<forall>s\<in>set (db_sessions db). session_invariant s \<Longrightarrow>
   \<forall>s\<in>set (db_sessions (createSession ttl owner new_id now_ts db)). session_invariant s"
  by (auto simp: createSession_def session_invariant_def)

lemma invariant_append:
  "\<forall>s\<in>set (db_sessions db). session_invariant s \<Longrightarrow>
   \<forall>s\<in>set (db_sessions (appendTurn new_id sid msg resp now_ts db)). session_invariant s"
  by (auto simp: appendTurn_def session_invariant_def split: option.splits)

section \<open>Verified properties\<close>

text \<open>
  \<^bold>\<open>C1.\<close> The title of a rebuilt conversation depends on the turns alone: with at least one
  turn it is the first 50 characters of the first turn's message followed by \<open>...\<close>, with
  no turn it is \<open>New Chat\<close>.
\<close>

theorem title_derivation:
  "conv_title (conversationOf session (Some (conv0 # rest))) = take 50 (turn_message conv0) @ ''...''
   \<and> conv_title (conversationOf session (Some [])) = ''New Chat''"
  by (simp add: conversationOf_def historyTitle_def js_or_def)

theorem title_derivation_witness:
  "conv_title (conversationOf sessionB (Some [exampleTurn])) = ''Hello...'' \<and>
   conv_title (conversationOf sessionB (Some [])) = ''New Chat''"
  using title_derivation [of sessionB exampleTurn "[]"]
  by (simp add: exampleTurn_def)

text \<open>
  \<^bold>\<open>C2.\<close> From \<open>n\<close> turns the reconstruction makes \<open>2n\<close> messages: message \<open>2i\<close> is the user
  message of turn \<open>i\<close> (id with suffix \<open>-user\<close>, content the message), message \<open>2i+1\<close> the
  assistant message (id with suffix \<open>-assistant\<close>, content the response), both with the
  turn's timestamp. The messages of a rebuilt conversation are a function of the turns
  only, so rebuilding from the same turns gives the same sequence.
\<close>

theorem history_reconstruction:
  "length (historyMessages turns) = 2 * length turns \<and>
   (\<forall>i < length turns.
      historyMessages turns ! (2 * i) =
        \<lparr>msg_id = turn_id (turns ! i) @ ''-user'', msg_role = User,
         msg_content = turn_message (turns ! i), msg_timestamp = turn_timestamp (turns ! i)\<rparr> \<and>
      historyMessages turns ! (2 * i + 1) =
        \<lparr>msg_id = turn_id (turns ! i) @ ''-assistant'', msg_role = Assistant,
         msg_content = turn_response (turns ! i), msg_timestamp = turn_timestamp (turns ! i)\<rparr>) \<and>
   conv_messages (conversationOf session (Some turns)) = historyMessages turns \<and>
   conv_messages (conversationOf session' (Some turns)) =
     conv_messages (conversationOf session (Some turns))"
proof -
  have len: "length (historyMessages turns) = 2 * length turns"
    by (simp only: historyMessages_concat length_concat_pairs)
  have nth: "\<forall>i < length turns.
      historyMessages turns ! (2 * i) = userMessageOf (turns ! i) \<and>
      historyMessages turns ! (2 * i + 1) = assistantMessageOf (turns ! i)"
    using nth_concat_pairs [of _ turns userMessageOf assistantMessageOf]
    by (simp only: historyMessages_concat) blast
  have conv: "\<And>s. conv_messages (conversationOf s (Some turns)) = historyMessages turns"
    by (simp add: conversationOf_def)
  from len nth conv show ?thesis
    by (simp add: userMessageOf_def assistantMessageOf_def)
qed

theorem history_reconstruction_witness:
  "length (historyMessages [exampleTurn]) = 2 \<and>
   historyMessages [exampleTurn] ! 0 =
     \<lparr>msg_id = ''7-user'', msg_role = User, msg_content = ''Hello'',
      msg_timestamp = ''2024-01-01T10:00:00Z''\<rparr> \<and>
   historyMessages [exampleTurn] ! 1 =
     \<lparr>msg_id = ''7-assistant'', msg_role = Assistant, msg_content = ''Hi there'',
      msg_timestamp = ''2024-01-01T10:00:00Z''\<rparr>"
  using history_reconstruction [of "[exampleTurn]" sessionB sessionA]
  by (simp add: exampleTurn_def)

text \<open>
  \<^bold>\<open>C3.\<close> The sorted conversation list is a permutation of the list rebuilt, and in it a
  conversation with messages stands before every conversation without, and, within
  either group, a conversation created later stands before one created earlier. The
  dates of the conversations are taken to parse.
\<close>

theorem conversation_order:
  assumes valid: "\<forall>c\<in>set cs. getTime (conv_created_at c) \<noteq> None"
  shows "mset (sortConversations getTime cs) = mset cs \<and>
    (\<forall>i < length cs. \<forall>j < length cs.
       (conv_messages (sortConversations getTime cs ! i) \<noteq> [] \<and>
        conv_messages (sortConversations getTime cs ! j) = [] \<longrightarrow> i < j) \<and>
       (\<forall>ta tb.
          (conv_messages (sortConversations getTime cs ! i) = [] \<longleftrightarrow>
           conv_messages (sortConversations getTime cs ! j) = []) \<and>
          getTime (conv_created_at (sortConversations getTime cs ! i)) = Some ta \<and>
          getTime (conv_created_at (sortConversations getTime cs ! j)) = Some tb \<and>
          tb < ta \<longrightarrow> i < j))"
proof -
  let ?r = "sortConversations getTime cs"
  let ?le = "sortsBefore (compareConversations getTime)"
  have perm: "mset ?r = mset cs"
    by (simp add: sortConversations_def mset_arraySort)
  then have len: "length ?r = length cs" by (metis size_mset)
  have sorted: "sorted_wrt ?le ?r"
    using valid by (intro sorted_sortConversations) (simp add: validDate_def)
  have cross: "i < j" if "i < length cs" "j < length cs"
      "conv_messages (?r ! i) \<noteq> []" "conv_messages (?r ! j) = []" for i j
  proof (rule sorted_index_order [OF sorted])
    show "i < length ?r" "j < length ?r" using that len by simp_all
    show "\<not> ?le (?r ! j) (?r ! i)"
      using that by (simp add: sortsBefore_def sortCompare_def compareConversations_def)
    show "i \<noteq> j" using that by auto
  qed
  have within: "i < j" if "i < length cs" "j < length cs"
      "conv_messages (?r ! i) = [] \<longleftrightarrow> conv_messages (?r ! j) = []"
      "getTime (conv_created_at (?r ! i)) = Some ta"
      "getTime (conv_created_at (?r ! j)) = Some tb" "tb < ta" for i j ta tb
  proof (rule sorted_index_order [OF sorted])
    show "i < length ?r" "j < length ?r" using that len by simp_all
    show "\<not> ?le (?r ! j) (?r ! i)"
      using that by (auto simp: sortsBefore_def sortCompare_def compareConversations_def)
    show "i \<noteq> j" using that by auto
  qed
  from perm cross within show ?thesis by blast
qed

theorem conversation_order_witness:
  "exampleGetTime (conv_created_at convA) = Some 1706745600000 \<and>
   exampleGetTime (conv_created_at convB) = Some 1704067200000 \<and>
   conv_id (sortConversations exampleGetTime [convA, convB] ! 0) = ''B'' \<and>
   conv_id (sortConversations exampleGetTime [convA, convB] ! 1) = ''A''"
proof -
  have h: "\<forall>c\<in>set [convA, convB]. exampleGetTime (conv_created_at c) \<noteq> None"
    by (simp add: convA_def convB_def conversationOf_def sessionA_def sessionB_def
                  exampleGetTime_def)
  show ?thesis
    using conversation_order [OF h]
    by (simp add: sortConversations_def arraySort_def sortCompare_def compareConversations_def
                  convA_def convB_def conversationOf_def sessionA_def sessionB_def
                  exampleGetTime_def historyMessages_def pushTurn_def)
qed

text \<open>
  \<^bold>\<open>C4.\<close> When the send fails (the fetch rejects, also by abort, or the answer is not OK),
  then whatever the page state is by then, the message list becomes the list from before
  the send, the user message, and one assistant message with one of the three error
  texts; and \<open>loading\<close> is false again.
\<close>

theorem failing_send:
  assumes start: "sendMessage_start user t0 st = (st1, Some cl)"
    and fails: "r = Rejected e \<or> (r = Response status body \<and> \<not> responseOk status)"
  shows "(\<exists>text \<in> {''Request timed out. Please try again.'',
                   ''Your session has expired. Please refresh the page and log in again.'',
                   ''Sorry, I encountered an error. Please try again.''}.
            messages (sendMessage_settle cl t1 r st') =
              messages st @
                [\<lparr>msg_id = toString (now t0), msg_role = User,
                  msg_content = inputMessage st, msg_timestamp = iso t0\<rparr>,
                 \<lparr>msg_id = toString (now t1 + 1), msg_role = Assistant,
                  msg_content = text, msg_timestamp = iso t1\<rparr>]) \<and>
         \<not> loading (sendMessage_settle cl t1 r st') \<and>
         sendMessage user t0 t1 latency bodyLatency r st =
           sendMessage_settle cl t1 (fetchWithTimeout 60000 latency r) st1"
proof -
  from fails obtain e' where thrown: "thrownBy r = Some e'"
    by (auto simp: thrownBy_def)
  have settle: "sendMessage_settle cl t1 r st' =
      sendMessage_finally (sendMessage_catch cl t1 e' st')"
    by (rule settle_thrown [OF thrown])
  have msgs: "messages (sendMessage_settle cl t1 r st') =
      messages st @ [userMessageAt t0 (inputMessage st), assistantMessageAt t1 (errorText e')]"
    by (simp add: settle finally_fields catch_fields start_Some(2) [OF start])
  have known: "errorText e' \<in> {''Request timed out. Please try again.'',
                   ''Your session has expired. Please refresh the page and log in again.'',
                   ''Sorry, I encountered an error. Please try again.''}"
    by (simp add: errorText_def)
  have idle: "\<not> loading (sendMessage_settle cl t1 r st')"
    by (simp add: settle finally_fields)
  have whole: "sendMessage user t0 t1 latency bodyLatency r st =
           sendMessage_settle cl t1 (fetchWithTimeout 60000 latency r) st1"
    by (simp add: sendMessage_def start await_thrown [OF fails])
  from msgs known have "\<exists>text \<in> {''Request timed out. Please try again.'',
                   ''Your session has expired. Please refresh the page and log in again.'',
                   ''Sorry, I encountered an error. Please try again.''}.
            messages (sendMessage_settle cl t1 r st') =
              messages st @
                [\<lparr>msg_id = toString (now t0), msg_role = User,
                  msg_content = inputMessage st, msg_timestamp = iso t0\<rparr>,
                 \<lparr>msg_id = toString (now t1 + 1), msg_role = Assistant,
                  msg_content = text, msg_timestamp = iso t1\<rparr>]"
    unfolding userMessageAt_def assistantMessageAt_def by blast
  with idle whole show ?thesis by blast
qed

theorem failing_send_witness:
  "messages (sendMessage_settle
     (the (snd (sendMessage_start exampleUser clock0 examplePage))) clock1
     (Response 500 None) (fst (sendMessage_start exampleUser clock0 examplePage))) =
     messages examplePage @
       [\<lparr>msg_id = toString (now clock0), msg_role = User, msg_content = ''How are you?'',
         msg_timestamp = iso clock0\<rparr>,
        \<lparr>msg_id = toString (now clock1 + 1), msg_role = Assistant,
         msg_content = ''Sorry, I encountered an error. Please try again.'',
         msg_timestamp = iso clock1\<rparr>] \<and>
   loading (sendMessage_settle
     (the (snd (sendMessage_start exampleUser clock0 examplePage))) clock1
     (Response 500 None) (fst (sendMessage_start exampleUser clock0 examplePage))) = False"
proof -
  have guard: "\<not> sendGuard exampleUser examplePage"
    by (simp add: sendGuard_def examplePage_def exampleUser_def trim_def isWhiteSpace_def)
  have start: "sendMessage_start exampleUser clock0 examplePage =
      (fst (sendMessage_start exampleUser clock0 examplePage),
       Some (the (snd (sendMessage_start exampleUser clock0 examplePage))))"
    using start_not_guard [OF guard, of clock0] by auto
  have fails: "Response 500 None = Rejected OtherError \<or>
      ((Response 500 None :: string fetched) = Response 500 None \<and> \<not> responseOk 500)"
    by (simp add: responseOk_def)
  show ?thesis
    using failing_send [OF start fails, of clock1
        "fst (sendMessage_start exampleUser clock0 examplePage)" "Some 200" None]
    by (simp add: sendMessage_settle_def responseOk_def finally_fields catch_fields
                  start_Some(2) [OF start] userMessageAt_def assistantMessageAt_def errorText_def
                  examplePage_def)
qed

text \<open>
  \<^bold>\<open>C5.\<close> The 60000 ms timer does not bound every send. On the sample page, when the
  answer's status line arrives after 200 ms with status 200 and its body never completes,
  no await resumes: the page stays loading with the user message as its last message,
  nothing but the focus timer is pending, and no timed-out message appears. When that
  body takes 120000 ms, the send is over after 120200 ms and delivers the answer as if
  nothing had happened. The timer bounds \<open>await fetch\<close> alone: a fetch that settles after
  59999 ms is delivered, one that would settle after 60000 ms or never is aborted at
  60000 ms and ends with \<open>Request timed out. Please try again.\<close>; each of these sends has
  issued one request.
\<close>

theorem stalled_body_not_timed_out:
  "awaitResponse 60000 (Some 200) None (Response 200 (Some ''Fine.'')) = None \<and>
   settledAt 60000 (Some 200) None (Response 200 (Some ''Fine.'')) = None \<and>
   loading (sendMessage exampleUser clock0 clock1 (Some 200) None
              (Response 200 (Some ''Fine.'')) examplePage) \<and>
   messages (sendMessage exampleUser clock0 clock1 (Some 200) None
               (Response 200 (Some ''Fine.'')) examplePage) =
     messages examplePage @
       [\<lparr>msg_id = toString (now clock0), msg_role = User, msg_content = ''How are you?'',
         msg_timestamp = iso clock0\<rparr>] \<and>
   timers (sendMessage exampleUser clock0 clock1 (Some 200) None
             (Response 200 (Some ''Fine.'')) examplePage) = [(0, FocusInput)] \<and>
   settledAt 60000 (Some 200) (Some 120000) (Response 200 (Some ''Fine.'')) = Some 120200 \<and>
   messages (sendMessage exampleUser clock0 clock1 (Some 200) (Some 120000)
               (Response 200 (Some ''Fine.'')) examplePage) =
     messages examplePage @
       [\<lparr>msg_id = toString (now clock0), msg_role = User, msg_content = ''How are you?'',
         msg_timestamp = iso clock0\<rparr>,
        \<lparr>msg_id = toString (now clock1 + 1), msg_role = Assistant, msg_content = ''Fine.'',
         msg_timestamp = iso clock1\<rparr>] \<and>
   settledAt 60000 (Some 59999) (Some 0) (Response 200 (Some ''Fine.'')) = Some 59999 \<and>
   messages (sendMessage exampleUser clock0 clock1 (Some 59999) (Some 0)
               (Response 200 (Some ''Fine.'')) examplePage) =
     messages examplePage @
       [\<lparr>msg_id = toString (now clock0), msg_role = User, msg_content = ''How are you?'',
         msg_timestamp = iso clock0\<rparr>,
        \<lparr>msg_id = toString (now clock1 + 1), msg_role = Assistant, msg_content = ''Fine.'',
         msg_timestamp = iso clock1\<rparr>] \<and>
   settledAt 60000 (Some 60000) (Some 0) (Response 200 (Some ''Fine.'')) = Some 60000 \<and>
   messages (sendMessage exampleUser clock0 clock1 (Some 60000) (Some 0)
               (Response 200 (Some ''Fine.'')) examplePage) =
     messages examplePage @
       [\<lparr>msg_id = toString (now clock0), msg_role = User, msg_content = ''How are you?'',
         msg_timestamp = iso clock0\<rparr>,
        \<lparr>msg_id = toString (now clock1 + 1), msg_role = Assistant,
         msg_content = ''Request timed out. Please try again.'',
         msg_timestamp = iso clock1\<rparr>] \<and>
   settledAt 60000 None None (Response 200 (Some ''Fine.'')) = Some 60000 \<and>
   messages (sendMessage exampleUser clock0 clock1 None None
               (Response 200 (Some ''Fine.'')) examplePage) =
     messages examplePage @
       [\<lparr>msg_id = toString (now clock0), msg_role = User, msg_content = ''How are you?'',
         msg_timestamp = iso clock0\<rparr>,
        \<lparr>msg_id = toString (now clock1 + 1), msg_role = Assistant,
         msg_content = ''Request timed out. Please try again.'',
         msg_timestamp = iso clock1\<rparr>] \<and>
   length (requests (sendMessage exampleUser clock0 clock1 (Some 200) None
                       (Response 200 (Some ''Fine.'')) examplePage)) = 1 \<and>
   length (requests (sendMessage exampleUser clock0 clock1 (Some 60000) (Some 0)
                       (Response 200 (Some ''Fine.'')) examplePage)) = 1"
proof -
  let ?st1 = "fst (sendMessage_start exampleUser clock0 examplePage)"
  let ?cl = "the (snd (sendMessage_start exampleUser clock0 examplePage))"
  let ?user = "\<lparr>msg_id = toString (now clock0), msg_role = User,
                 msg_content = ''How are you?'', msg_timestamp = iso clock0\<rparr>"
  have input: "inputMessage examplePage = ''How are you?''" "requests examplePage = []"
    by (simp_all add: examplePage_def)
  have updated: "sc_updatedMessages ?cl = messages examplePage @ [?user]"
    using start_Some(2) [OF example_start] by (simp add: userMessageAt_def input)
  have started: "messages ?st1 = messages examplePage @ [?user]"
    using start_Some(3) [OF example_start] by (simp add: userMessageAt_def input)
  have busy: "loading ?st1"
    by (rule start_Some(4) [OF example_start])
  have one: "length (requests ?st1) = 1"
    using start_Some(6) [OF example_start] by (simp add: input)
  have stalled: "awaitResponse 60000 (Some 200) None (Response 200 (Some ''Fine.'')) = None"
    by (simp add: awaitResponse_def fetchWithTimeout_def responseOk_def)
  have late_body: "awaitResponse 60000 (Some 200) (Some 120000) (Response 200 (Some ''Fine.'')) =
      Some (Response 200 (Some ''Fine.''))"
    by (simp add: await_in_time)
  have in_time: "awaitResponse 60000 (Some 59999) (Some 0) (Response 200 (Some ''Fine.'')) =
      Some (Response 200 (Some ''Fine.''))"
    by (simp add: await_in_time)
  have at_limit: "awaitResponse 60000 (Some 60000) (Some 0) (Response 200 (Some ''Fine.'')) =
      Some (Rejected AbortError)"
    by (simp add: await_late)
  have never: "awaitResponse 60000 None None (Response 200 (Some ''Fine.'')) =
      Some (Rejected AbortError)"
    by (simp add: await_late)
  have times:
    "settledAt 60000 (Some 200) None (Response 200 (Some ''Fine.'')) = None"
    "settledAt 60000 (Some 200) (Some 120000) (Response 200 (Some ''Fine.'')) = Some 120200"
    "settledAt 60000 (Some 59999) (Some 0) (Response 200 (Some ''Fine.'')) = Some 59999"
    "settledAt 60000 (Some 60000) (Some 0) (Response 200 (Some ''Fine.'')) = Some 60000"
    "settledAt 60000 None None (Response 200 (Some ''Fine.'')) = Some 60000"
    by (simp_all add: settledAt_def responseOk_def)
  have abort_requests: "requests (sendMessage_settle ?cl clock1 (Rejected AbortError) ?st1) =
      requests ?st1"
    by (simp add: failing_end_no_request thrownBy_def)
  show ?thesis
    unfolding example_send stalled late_body in_time at_limit never times
    by (simp add: settle_delivered settle_aborted updated started busy one abort_requests
                  example_start_timers assistantMessageAt_def)
qed

text \<open>
  \<^bold>\<open>C6.\<close> A 401 answer is not handled by every authenticated call. On the sample page, a 401
  answer to the \<open>DELETE\<close> of \<open>deleteConversation\<close> leaves the token in place, reloads
  nothing, schedules nothing, and still drops the conversation from the list; a 401
  answer to a history request is read as an empty history. The two sibling paths do
  handle it: a 401 answer to the session list clears the token and reloads at once, and a
  401 answer to a send appends the session-expired message and schedules the purge and
  reload 3000 ms later.
\<close>

theorem unauthorized_delete_not_handled:
  "token (deleteConversation ''B'' (Response 401 None) examplePage) = Some ''secret'' \<and>
   reloads (deleteConversation ''B'' (Response 401 None) examplePage) = 0 \<and>
   timers (deleteConversation ''B'' (Response 401 None) examplePage) = [] \<and>
   conversations (deleteConversation ''B'' (Response 401 None) examplePage) = [convA] \<and>
   token (loadSessionsAndConversations exampleGetTime (Response 200 (Some [sessionB]))
            (\<lambda>sid. Response 401 (Some None)) examplePage) = Some ''secret'' \<and>
   reloads (loadSessionsAndConversations exampleGetTime (Response 200 (Some [sessionB]))
            (\<lambda>sid. Response 401 (Some None)) examplePage) = 0 \<and>
   token (loadSessionsAndConversations exampleGetTime (Response 401 None)
            (\<lambda>sid. Response 401 (Some None)) examplePage) = None \<and>
   reloads (loadSessionsAndConversations exampleGetTime (Response 401 None)
            (\<lambda>sid. Response 401 (Some None)) examplePage) = 1 \<and>
   timers (sendMessage exampleUser clock0 clock1 (Some 200) (Some 10) (Response 401 None) examplePage) =
     [(0, FocusInput), (3000, PurgeTokenAndReload), (150, FocusInput)] \<and>
   msg_content (last (messages
      (sendMessage exampleUser clock0 clock1 (Some 200) (Some 10) (Response 401 None) examplePage))) =
     ''Your session has expired. Please refresh the page and log in again.'' \<and>
   token (runTimer PurgeTokenAndReload
      (sendMessage exampleUser clock0 clock1 (Some 200) (Some 10) (Response 401 None) examplePage)) = None \<and>
   reloads (runTimer PurgeTokenAndReload
      (sendMessage exampleUser clock0 clock1 (Some 200) (Some 10) (Response 401 None) examplePage)) = 1"
proof -
  have del: "deleteConversation ''B'' (Response 401 None) examplePage =
      examplePage\<lparr>requests := [\<lparr>req_method = ''DELETE'', req_url = ''/api/chat/session/B'',
                                 req_authorization = Some ''Bearer secret'', req_body = []\<rparr>],
                   conversations := [convA], currentConversation := None,
                   currentSession := None, messages := []\<rparr>"
    by (simp add: deleteConversation_def examplePage_def convA_def convB_def conversationOf_def
                  sessionA_def sessionB_def authorization_def)
  have guard: "\<not> sendGuard exampleUser examplePage"
    by (simp add: sendGuard_def examplePage_def exampleUser_def trim_def isWhiteSpace_def)
  have send: "sendMessage exampleUser clock0 clock1 (Some 200) (Some 10) (Response 401 None) examplePage =
      sendMessage_finally (sendMessage_catch
        (the (snd (sendMessage_start exampleUser clock0 examplePage))) clock1 (HttpError 401)
        (fst (sendMessage_start exampleUser clock0 examplePage)))"
    using start_not_guard [OF guard, of clock0]
    by (auto simp: sendMessage_def awaitResponse_def sendMessage_settle_def fetchWithTimeout_def
                   responseOk_def)
  have start_timers: "timers (fst (sendMessage_start exampleUser clock0 examplePage)) =
      [(0, FocusInput)]"
    using guard
    by (simp add: sendMessage_start_def examplePage_def exampleUser_def setTimeout_def Let_def)
  have start_token: "token (fst (sendMessage_start exampleUser clock0 examplePage)) =
      Some ''secret''"
    using guard
    by (simp add: sendMessage_start_def examplePage_def exampleUser_def setTimeout_def Let_def)
  have start_reloads: "reloads (fst (sendMessage_start exampleUser clock0 examplePage)) = 0"
    using guard
    by (simp add: sendMessage_start_def examplePage_def exampleUser_def setTimeout_def Let_def)
  have load_hist: "loadSessionsAndConversations exampleGetTime (Response 200 (Some [sessionB]))
            (\<lambda>sid. Response 401 (Some None)) examplePage =
      examplePage\<lparr>requests := [getRequest (Some ''secret'') ''/api/chat/sessions'',
                                getRequest (Some ''secret'') ''/api/chat/history/B''],
                   sessions := [sessionB],
                   conversations := [conversationOf sessionB None]\<rparr>"
    by (simp add: loadSessionsAndConversations_def Let_def responseOk_def historyOf_def
                  sortConversations_def arraySort_def autoSelect_def examplePage_def
                  sessionB_def)
  have load_401: "loadSessionsAndConversations exampleGetTime (Response 401 None)
            (\<lambda>sid. Response 401 (Some None)) examplePage =
      examplePage\<lparr>requests := [getRequest (Some ''secret'') ''/api/chat/sessions''],
                   token := None, reloads := 1\<rparr>"
    by (simp add: loadSessionsAndConversations_def Let_def responseOk_def examplePage_def)
  have page: "token examplePage = Some ''secret''" "reloads examplePage = 0"
      "timers examplePage = []"
    by (simp_all add: examplePage_def)
  show ?thesis
    unfolding del load_hist load_401 send
    by (simp add: finally_fields catch_fields start_timers start_token start_reloads
                  errorText_def assistantMessageAt_def runTimer_def page)
qed

text \<open>
  \<^bold>\<open>C7.\<close> With a positive TTL, every session row of every state that the operations of the
  store reach from the empty tables has \<open>expires_at > created_at\<close>; and a session is live
  exactly when the current time is strictly before its \<open>expires_at\<close>.
\<close>

theorem session_invariant_holds:
  assumes "0 < ttl" and "reachable ttl db"
  shows "(\<forall>s\<in>set (db_sessions db). session_invariant s) \<and>
         (\<forall>s\<in>set (db_sessions db). \<forall>c. row_created_at s = Some c \<longrightarrow> c < row_expires_at s) \<and>
         (\<forall>s now_ts. live now_ts s \<longleftrightarrow> now_ts < row_expires_at s)"
proof -
  from assms(2) have inv: "\<forall>s\<in>set (db_sessions db). session_invariant s"
  proof (induction rule: reachable.induct)
    case reach_empty
    show ?case by (simp add: empty_database_def)
  next
    case (reach_create db owner new_id now_ts)
    then show ?case using invariant_create [OF assms(1)] by blast
  next
    case (reach_delete db sid owner)
    then show ?case unfolding deleteSession_def using invariant_delete_where by blast
  next
    case (reach_expire db now_ts)
    then show ?case unfolding clean_expired_sessions_def using invariant_delete_where by blast
  next
    case (reach_append db new_id sid msg resp now_ts)
    then show ?case using invariant_append by blast
  qed
  then have "\<forall>s\<in>set (db_sessions db). \<forall>c. row_created_at s = Some c \<longrightarrow> c < row_expires_at s"
    by (auto simp: session_invariant_def)
  with inv show ?thesis by (simp add: live_def)
qed

theorem session_invariant_holds_witness:
  "db_sessions exampleDatabase =
     [\<lparr>row_id = ''s1'', row_user_id = Some ''u1'', row_created_at = Some 1000,
       row_last_activity = Some 1005, row_expires_at = 4600\<rparr>] \<and>
   session_invariant
     \<lparr>row_id = ''s1'', row_user_id = Some ''u1'', row_created_at = Some 1000,
      row_last_activity = Some 1005, row_expires_at = 4600\<rparr> \<and>
   live 4599 \<lparr>row_id = ''s1'', row_user_id = Some ''u1'', row_created_at = Some 1000,
      row_last_activity = Some 1005, row_expires_at = 4600\<rparr> \<and>
   live 4600 \<lparr>row_id = ''s1'', row_user_id = Some ''u1'', row_created_at = Some 1000,
      row_last_activity = Some 1005, row_expires_at = 4600\<rparr> = False"
proof -
  have ttl: "(0::int) < 3600" by simp
  have reach: "reachable 3600 exampleDatabase"
    unfolding exampleDatabase_def by (intro reachable.intros)
  have rows: "db_sessions exampleDatabase =
     [\<lparr>row_id = ''s1'', row_user_id = Some ''u1'', row_created_at = Some 1000,
       row_last_activity = Some 1005, row_expires_at = 4600\<rparr>]"
    by (simp add: exampleDatabase_def appendTurn_def createSession_def empty_database_def)
  show ?thesis
    using session_invariant_holds [OF ttl reach] rows by simp
qed

text \<open>
  \<^bold>\<open>C8.\<close> \<open>clean_expired_sessions\<close> keeps exactly the session rows whose \<open>expires_at\<close> is not
  before the current time, in their order and unchanged, removes every row whose
  \<open>expires_at\<close> is before it, and returns the number of rows removed.
\<close>

theorem expiry_sweep:
  "db_sessions (fst (clean_expired_sessions now_ts db)) =
     filter (\<lambda>s. now_ts \<le> row_expires_at s) (db_sessions db) \<and>
   snd (clean_expired_sessions now_ts db) =
     length (filter (\<lambda>s. row_expires_at s < now_ts) (db_sessions db)) \<and>
   (\<forall>s\<in>set (db_sessions db). row_expires_at s < now_ts \<longrightarrow>
        s \<notin> set (db_sessions (fst (clean_expired_sessions now_ts db)))) \<and>
   (\<forall>s\<in>set (db_sessions db). now_ts \<le> row_expires_at s \<longrightarrow>
        s \<in> set (db_sessions (fst (clean_expired_sessions now_ts db)))) \<and>
   length (db_sessions (fst (clean_expired_sessions now_ts db))) +
     snd (clean_expired_sessions now_ts db) = length (db_sessions db)"
proof -
  have rows: "db_sessions (fst (clean_expired_sessions now_ts db)) =
     filter (\<lambda>s. now_ts \<le> row_expires_at s) (db_sessions db)"
    by (simp add: clean_expired_sessions_def delete_sessions_rows not_less)
  have count: "snd (clean_expired_sessions now_ts db) =
     length (filter (\<lambda>s. row_expires_at s < now_ts) (db_sessions db))"
    by (simp add: clean_expired_sessions_def delete_sessions_rows)
  have total: "length (filter (\<lambda>s. now_ts \<le> row_expires_at s) (db_sessions db)) +
     length (filter (\<lambda>s. row_expires_at s < now_ts) (db_sessions db)) = length (db_sessions db)"
    using sum_length_filter_compl [of "\<lambda>s. row_expires_at s < now_ts" "db_sessions db"]
    by (simp add: not_less)
  show ?thesis
    unfolding rows count using total by auto
qed

theorem expiry_sweep_witness:
  "db_sessions (fst (clean_expired_sessions 100 sweepDatabase)) = [rowEdge] \<and>
   snd (clean_expired_sessions 100 sweepDatabase) = 1 \<and>
   db_conversations (fst (clean_expired_sessions 100 sweepDatabase)) = []"
  using expiry_sweep [of 100 sweepDatabase]
  by (simp add: sweepDatabase_def rowOld_def rowEdge_def clean_expired_sessions_def
                delete_sessions_where_def)

text \<open>
  \<^bold>\<open>C9.\<close> After the owner deletes a session, no turn row references it, the turn rows of
  other sessions are still there, the session is not in the owner's session listing, and
  the page's conversation list has no entry for it once the \<open>DELETE\<close> has been answered.
\<close>

theorem delete_session_cascade:
  assumes "\<exists>s\<in>set (db_sessions db). row_id s = sid \<and> row_user_id s = Some owner"
  shows "(\<forall>c\<in>set (db_conversations (deleteSession sid owner db)). crow_session_id c \<noteq> Some sid) \<and>
         (\<forall>c\<in>set (db_conversations db). crow_session_id c \<noteq> Some sid \<longrightarrow>
              c \<in> set (db_conversations (deleteSession sid owner db))) \<and>
         sid \<notin> set (map row_id (listSessions owner (deleteSession sid owner db))) \<and>
         (\<forall>c\<in>set (conversations (deleteConversation sid (Response status body) st)).
              conv_id c \<noteq> sid)"
proof -
  let ?p = "\<lambda>s. row_id s = sid \<and> row_user_id s = Some owner"
  from assms have ids: "set (map row_id (filter ?p (db_sessions db))) = {sid}"
    by auto
  have turns: "db_conversations (deleteSession sid owner db) =
      filter (\<lambda>c. crow_session_id c \<noteq> Some sid) (db_conversations db)"
    unfolding deleteSession_def delete_sessions_rows ids
    by (rule filter_cong) (auto split: option.splits)
  have listing: "sid \<notin> set (map row_id (listSessions owner (deleteSession sid owner db)))"
    by (auto simp: listSessions_def deleteSession_def delete_sessions_rows)
  have client: "\<forall>c\<in>set (conversations (deleteConversation sid (Response status body) st)).
      conv_id c \<noteq> sid"
    by (simp add: deleteConversation_def Let_def)
  from turns listing client show ?thesis by simp
qed

theorem delete_session_cascade_witness:
  "db_conversations exampleDatabase \<noteq> [] \<and>
   db_conversations (deleteSession ''s1'' ''u1'' exampleDatabase) = [] \<and>
   listSessions ''u1'' (deleteSession ''s1'' ''u1'' exampleDatabase) = [] \<and>
   conversations (deleteConversation ''B'' (Response 200 None) examplePage) = [convA]"
proof -
  have db: "exampleDatabase =
     \<lparr>db_sessions =
        [\<lparr>row_id = ''s1'', row_user_id = Some ''u1'', row_created_at = Some 1000,
          row_last_activity = Some 1005, row_expires_at = 4600\<rparr>],
      db_conversations =
        [\<lparr>crow_id = ''c1'', crow_user_id = Some ''u1'', crow_session_id = Some ''s1'',
          crow_message = ''Hello'', crow_response = ''Hi there'', crow_timestamp = Some 1005\<rparr>]\<rparr>"
    by (simp add: exampleDatabase_def appendTurn_def createSession_def empty_database_def)
  have h: "\<exists>s\<in>set (db_sessions exampleDatabase). row_id s = ''s1'' \<and> row_user_id s = Some ''u1''"
    by (simp add: db)
  show ?thesis
    using delete_session_cascade [OF h, of 200 None examplePage]
    by (simp add: db deleteSession_def delete_sessions_where_def listSessions_def
                  deleteConversation_def examplePage_def convA_def convB_def conversationOf_def
                  sessionA_def sessionB_def)
qed

text \<open>
  \<^bold>\<open>C10.\<close> When \<open>loading\<close> is set, or the input is empty or only white space, or no session is
  selected, or there is no user, \<open>sendMessage\<close> returns the state as it is, with no request;
  the send button is disabled under exactly these conditions; and a send that has started
  leaves \<open>loading\<close> set, so that any further \<open>sendMessage\<close> on that state does nothing.
\<close>

theorem send_guard:
  "(loading st \<or> (\<forall>c\<in>set (inputMessage st). isWhiteSpace c) \<or> currentSession st = None \<or>
      user = None \<longrightarrow>
      sendMessage_start user t0 st = (st, None) \<and>
      sendMessage user t0 t1 latency bodyLatency r st = st) \<and>
   (sendDisabled user st \<longleftrightarrow>
      loading st \<or> (\<forall>c\<in>set (inputMessage st). isWhiteSpace c) \<or> currentSession st = None \<or>
      user = None) \<and>
   (\<forall>st1 cl. sendMessage_start user t0 st = (st1, Some cl) \<longrightarrow>
      loading st1 \<and> sendMessage_start user' t0' st1 = (st1, None) \<and>
      sendMessage user' t0' t1' latency' bodyLatency' r' st1 = st1)"
proof -
  have guard: "sendGuard user st \<longleftrightarrow>
      loading st \<or> (\<forall>c\<in>set (inputMessage st). isWhiteSpace c) \<or> currentSession st = None \<or>
      user = None"
    by (auto simp: sendGuard_def trim_empty_iff)
  have disabled: "sendDisabled user st = sendGuard user st"
    by (simp add: sendDisabled_def sendGuard_def)
  have noop: "sendMessage_start u t st2 = (st2, None) \<and> sendMessage u t t' l b q st2 = st2"
    if "sendGuard u st2" for u t t' l b q st2
    using that by (simp add: sendMessage_def start_guard)
  have inflight: "loading st1 \<and> sendMessage_start user' t0' st1 = (st1, None) \<and>
      sendMessage user' t0' t1' latency' bodyLatency' r' st1 = st1"
    if "sendMessage_start user t0 st = (st1, Some cl)" for st1 cl
  proof -
    from start_Some(4) [OF that] have l: "loading st1" .
    then have "sendGuard user' st1" by (simp add: sendGuard_def)
    from noop [OF this] l show ?thesis by simp
  qed
  from guard disabled noop inflight show ?thesis by blast
qed

theorem send_guard_witness:
  "sendMessage exampleUser clock0 clock1 (Some 200) (Some 10) (Response 200 (Some ''Fine.''))
     (examplePage\<lparr>loading := True\<rparr>) = examplePage\<lparr>loading := True\<rparr> \<and>
   sendDisabled exampleUser (examplePage\<lparr>loading := True\<rparr>) \<and>
   sendMessage exampleUser clock0 clock1 (Some 200) (Some 10) (Response 200 (Some ''Fine.''))
     (examplePage\<lparr>inputMessage := ''  ''\<rparr>) = examplePage\<lparr>inputMessage := ''  ''\<rparr>"
proof -
  have busy: "loading (examplePage\<lparr>loading := True\<rparr>)"
    by simp
  have blank: "\<forall>c\<in>set (inputMessage (examplePage\<lparr>inputMessage := ''  ''\<rparr>)). isWhiteSpace c"
    by (simp add: isWhiteSpace_def)
  have a: "sendMessage exampleUser clock0 clock1 (Some 200) (Some 10) (Response 200 (Some ''Fine.''))
     (examplePage\<lparr>loading := True\<rparr>) = examplePage\<lparr>loading := True\<rparr>"
    using send_guard [of "examplePage\<lparr>loading := True\<rparr>" exampleUser clock0 clock1 "Some 200"
                         "Some 10" "Response 200 (Some ''Fine.'')", THEN conjunct1] busy
    by blast
  have b: "sendDisabled exampleUser (examplePage\<lparr>loading := True\<rparr>)"
    using send_guard [of "examplePage\<lparr>loading := True\<rparr>" exampleUser, THEN conjunct2,
                      THEN conjunct1] busy
    by blast
  have c: "sendMessage exampleUser clock0 clock1 (Some 200) (Some 10) (Response 200 (Some ''Fine.''))
     (examplePage\<lparr>inputMessage := ''  ''\<rparr>) = examplePage\<lparr>inputMessage := ''  ''\<rparr>"
    using send_guard [of "examplePage\<lparr>inputMessage := ''  ''\<rparr>" exampleUser clock0 clock1
                         "Some 200" "Some 10" "Response 200 (Some ''Fine.'')", THEN conjunct1] blank
    by blast
  show ?thesis by (rule conjI [OF a conjI [OF b c]])
qed

end
